theory Spec2Isabelle
  imports Main "HOL-Library.AList"
begin

section \<open>Python values used by \<open>tf_job_client.py\<close>\<close>

text \<open>
  Strings are lists of 8-bit characters. \<open>str.lower\<close> is modelled on the ASCII letters,
  which is what it does on the replica types and condition types of a TFJob
  (\<open>chief\<close>, \<open>worker\<close>, \<open>ps\<close>, \<open>Succeeded\<close>, ...).
\<close>

definition lower_char :: "char \<Rightarrow> char" where
  "lower_char c =
     (case map_of (zip ''ABCDEFGHIJKLMNOPQRSTUVWXYZ'' ''abcdefghijklmnopqrstuvwxyz'') c of
        Some l \<Rightarrow> l
      | None \<Rightarrow> c)"

definition lower :: "string \<Rightarrow> string" where
  "lower s = map lower_char s"

text \<open>\<open>str(n)\<close> for an integer: decimal digits, with a minus sign below zero.\<close>

fun str_nat :: "nat \<Rightarrow> string" where
  "str_nat n =
     (if n < 10 then [''0123456789'' ! n]
      else str_nat (n div 10) @ [''0123456789'' ! (n mod 10)])"

definition str_int :: "int \<Rightarrow> string" where
  "str_int i = (if i < 0 then CHR ''-'' # str_nat (nat (- i)) else str_nat (nat i))"

text \<open>\<open>sep.join(parts)\<close>.\<close>

fun join :: "string \<Rightarrow> string list \<Rightarrow> string" where
  "join sep [] = []"
| "join sep [p] = p"
| "join sep (p # q # ps) = p @ sep @ join sep (q # ps)"

section \<open>Constants of the module\<close>

definition TF_JOB_GROUP :: string where
  "TF_JOB_GROUP = ''kubeflow.org''"

definition TF_JOB_PLURAL :: string where
  "TF_JOB_PLURAL = ''tfjobs''"

definition TF_JOB_NAME_LABEL :: string where
  "TF_JOB_NAME_LABEL = ''job-name''"

section \<open>Labels and selectors\<close>

text \<open>
  A label set is a Python dict from label keys to values. It is an association list in
  insertion order, the order \<open>labels.items()\<close> iterates in; \<open>labels[k] = v\<close> is
  \<open>AList.update k v\<close>, which replaces the value of a key already present and appends a
  new key at the end. A value is the job name or the replica type (a string) or the
  replica index (an integer), stored as given.
\<close>

datatype label_value = LStr string | LInt int

type_synonym labels = "(string \<times> label_value) list"

text \<open>
  \<open>get_labels(name, replica_type=None, replica_index=None)\<close>. The two guards are
  Python truth tests: \<open>if replica_type:\<close> fails on \<open>None\<close> and on the empty string,
  \<open>if replica_index:\<close> fails on \<open>None\<close> and on \<open>0\<close>.
\<close>

definition get_labels :: "string \<Rightarrow> string option \<Rightarrow> int option \<Rightarrow> labels" where
  "get_labels name replica_type replica_index =
     (let labels = AList.update TF_JOB_NAME_LABEL (LStr name)
                     (AList.update ''group-name'' (LStr ''kubeflow.org'') []);
          labels = (case replica_type of
                      None \<Rightarrow> labels
                    | Some t \<Rightarrow>
                        if t \<noteq> [] then AList.update ''replica-type'' (LStr (lower t)) labels
                        else labels);
          labels = (case replica_index of
                      None \<Rightarrow> labels
                    | Some i \<Rightarrow>
                        if i \<noteq> 0 then AList.update ''replica-index'' (LInt i) labels
                        else labels)
      in labels)"

text \<open>\<open>"{0}={1}".format(k, v)\<close>: the key, an equals sign and \<open>str(v)\<close>.\<close>

fun str_value :: "label_value \<Rightarrow> string" where
  "str_value (LStr s) = s"
| "str_value (LInt i) = str_int i"

definition format_label :: "string \<Rightarrow> label_value \<Rightarrow> string" where
  "format_label k v = k @ ''='' @ str_value v"

text \<open>
  \<open>to_selector(labels)\<close>: the loop appends one part per item to \<open>parts\<close>, then the
  parts are joined with commas.
\<close>

definition to_selector :: "labels \<Rightarrow> string" where
  "to_selector labels =
     join '','' (foldl (\<lambda>parts (k, v). parts @ [format_label k v]) [] labels)"

text \<open>
  The rendering as the specification words it: the \<open>key=value\<close> pairs of the label set,
  in iteration order, with a comma between neighbours.
\<close>

fun selector_spec :: "labels \<Rightarrow> string" where
  "selector_spec [] = []"
| "selector_spec [(k, v)] = k @ ''='' @ str_value v"
| "selector_spec ((k, v) # kv # rest) = k @ ''='' @ str_value v @ '','' @ selector_spec (kv # rest)"

section \<open>The TFJob resource\<close>

text \<open>
  The custom resource comes back from the API server as nested dicts. The records hold
  the keys the module reads; a key that may be missing is an \<open>option\<close>. The
  \<open>conditions\<close> of a status are read in three states, which the module tells apart:
  the key is missing, its value is \<open>None\<close>, or it is a list of condition dicts.
  \<open>other_keys\<close> and \<open>other_fields\<close> name the further keys of a dict
  (\<open>apiVersion\<close>, \<open>kind\<close>, \<open>template\<close>, ...): they decide whether the dict is
  empty, which is what a Python truth test on a dict asks.
\<close>

datatype 'a json_field = Missing | Null | Given 'a

record condition =
  cond_type :: "string option"

record job_status =
  conditions :: "condition list json_field"

record replica_spec =
  replicas :: "int option"
  other_fields :: "string list"

record job_spec =
  tfReplicaSpecs :: "(string \<times> replica_spec) list option"

record metadata =
  uid :: "string option"

record tfjob =
  metadata :: "metadata option"
  spec :: "job_spec option"
  status :: "job_status option"
  other_keys :: "string list"

text \<open>Truth tests on dicts: a dict is false exactly when it has no key.\<close>

definition tfjob_truthy :: "tfjob \<Rightarrow> bool" where
  "tfjob_truthy j =
     (metadata j \<noteq> None \<or> spec j \<noteq> None \<or> status j \<noteq> None \<or> other_keys j \<noteq> [])"

definition replica_spec_truthy :: "replica_spec \<Rightarrow> bool" where
  "replica_spec_truthy r = (replicas r \<noteq> None \<or> other_fields r \<noteq> [])"

text \<open>
  The exceptions a collaborator call (the API client, \<open>k8s_util\<close>, \<open>util.send_request\<close>)
  can raise: \<open>MPTimeoutError\<close> is \<open>multiprocessing.TimeoutError\<close>, \<open>ApiException s\<close> is
  \<open>rest.ApiException\<close> with HTTP status \<open>s\<close>, \<open>OtherError\<close> is any other exception.
\<close>

datatype api_exn =
    MPTimeoutError
  | ApiException int
  | OtherError string

text \<open>
  The exceptions that leave a function of the module: the ones Python raises on a bad
  index, a collaborator's exception passed on, and the two the module raises itself.
  \<open>util.TimeoutError\<close> is built from a message alone, and \<open>util.JobTimeoutError\<close> from
  a message and the job; the constructors keep the arguments of the message's format
  (job name and namespace, and for \<open>JobTimeoutError\<close> the expected conditions) in place
  of the formatted text.
\<close>

datatype exn =
    IndexError
  | TypeError
  | Raised api_exn
  | TimeoutError string string
  | JobTimeoutError string string "string list" "tfjob option"

definition NOT_FOUND :: int where
  "NOT_FOUND = 404"

subsection \<open>Reading a job's conditions\<close>

text \<open>\<open>tfjob.get("status", {})\<close>: the empty dict has no \<open>conditions\<close> key.\<close>

definition get_status :: "tfjob \<Rightarrow> job_status" where
  "get_status j = (case status j of None \<Rightarrow> \<lparr>conditions = Missing\<rparr> | Some s \<Rightarrow> s)"

text \<open>
  \<open>status.get("conditions", dflt)\<close>: the default \<open>dflt\<close> only stands in for a missing
  key. The result is a list, or \<open>None\<close> when the value of the key is Python's \<open>None\<close>.
\<close>

definition get_conditions :: "job_status \<Rightarrow> condition list \<Rightarrow> condition list option" where
  "get_conditions s dflt =
     (case conditions s of Missing \<Rightarrow> Some dflt | Null \<Rightarrow> None | Given cs \<Rightarrow> Some cs)"

text \<open>\<open>c.get("type", "")\<close>.\<close>

definition get_type :: "condition \<Rightarrow> string" where
  "get_type c = (case cond_type c of None \<Rightarrow> [] | Some t \<Rightarrow> t)"

text \<open>\<open>xs[-1]\<close>: the last element, \<open>IndexError\<close> on the empty list.\<close>

fun py_last :: "'a list \<Rightarrow> exn + 'a" where
  "py_last [] = Inl IndexError"
| "py_last [x] = Inr x"
| "py_last (x # y # ys) = py_last (y # ys)"

text \<open>
  \<open>job_succeeded(tfjob)\<close>. The default of the lookup is the one-element list
  \<open>[{}]\<close>. Indexing \<open>None\<close> raises \<open>TypeError\<close>, indexing an empty list raises
  \<open>IndexError\<close>.
\<close>

definition job_succeeded :: "tfjob \<Rightarrow> exn + bool" where
  "job_succeeded j =
     (case get_conditions (get_status j) [\<lparr>cond_type = None\<rparr>] of
        None \<Rightarrow> Inl TypeError
      | Some cs \<Rightarrow>
          (case py_last cs of
             Inl e \<Rightarrow> Inl e
           | Inr last_condition \<Rightarrow> Inr (lower (get_type last_condition) = ''succeeded'')))"

text \<open>
  The condition sequence \<open>wait_for_condition\<close> scans: the lookup defaults to \<open>[]\<close>, and
  \<open>conditions or []\<close> replaces \<open>None\<close> (and the empty list) by \<open>[]\<close>.
\<close>

definition poll_conditions :: "tfjob \<Rightarrow> condition list" where
  "poll_conditions j =
     (case get_conditions (get_status j) [] of
        None \<Rightarrow> []
      | Some cs \<Rightarrow> if cs \<noteq> [] then cs else [])"

text \<open>
  The scan \<open>for c in conditions: if c.get("type", "") in expected_condition: return\<close>:
  in sequence order, stopping at the first entry whose type is expected.
\<close>

fun any_expected :: "condition list \<Rightarrow> string list \<Rightarrow> bool" where
  "any_expected [] expected_condition = False"
| "any_expected (c # cs) expected_condition =
     (if get_type c \<in> set expected_condition then True else any_expected cs expected_condition)"

section \<open>The polling loops\<close>

text \<open>
  The loops read the wall clock, ask the API server for the job and sleep. The world they
  run in holds the clock (\<open>now\<close>, in microseconds, the resolution of \<open>datetime\<close>),
  the sleeps made so far (the argument of each \<open>time.sleep\<close>, in seconds) and the
  state of the caller, which is all a status callback acts on. The API server is a
  script: the answer to each successive get of the job (the resource, or the exception
  the call raises) with the time the call took. A loop that asks for more answers than
  the script holds has no result (\<open>None\<close>).

  A \<open>timedelta\<close> is a number of microseconds; its \<open>seconds\<close> attribute is the
  seconds part of the normalised value, below one day.
\<close>

type_synonym timedelta = int

definition td_seconds :: "timedelta \<Rightarrow> nat" where
  "td_seconds td = nat ((td div 1000000) mod 86400)"

record 'c world =
  now :: int
  slept :: "nat list"
  caller :: 'c

type_synonym api_script = "((api_exn + tfjob) \<times> int) list"

definition elapse :: "int \<Rightarrow> 'c world \<Rightarrow> 'c world" where
  "elapse dt w = w\<lparr>now := now w + dt\<rparr>"

definition sleep :: "nat \<Rightarrow> 'c world \<Rightarrow> 'c world" where
  "sleep secs w = w\<lparr>now := now w + int secs * 1000000, slept := slept w @ [secs]\<rparr>"

definition run_callback :: "(tfjob \<Rightarrow> 'c \<Rightarrow> 'c) option \<Rightarrow> tfjob \<Rightarrow> 'c world \<Rightarrow> 'c world" where
  "run_callback status_callback results w =
     (case status_callback of None \<Rightarrow> w | Some f \<Rightarrow> w\<lparr>caller := f results (caller w)\<rparr>)"

text \<open>
  The fetch of \<open>wait_for_condition\<close>: \<open>results = None\<close>, then \<open>thread.get(TIMEOUT)\<close>.
  A \<open>multiprocessing.TimeoutError\<close> is logged and leaves \<open>results\<close> at \<open>None\<close>; any other
  exception is raised again.
\<close>

definition fetch_results :: "api_exn + tfjob \<Rightarrow> exn + tfjob option" where
  "fetch_results r =
     (case r of
        Inr j \<Rightarrow> Inr (Some j)
      | Inl e \<Rightarrow> if e = MPTimeoutError then Inr None else Inl (Raised e))"

text \<open>
  The block under \<open>if results:\<close>: the callback, when one is given, then the scan. The
  result is the job to return when a condition matched.
\<close>

definition inspect ::
  "string list \<Rightarrow> (tfjob \<Rightarrow> 'c \<Rightarrow> 'c) option \<Rightarrow> tfjob option \<Rightarrow> 'c world
     \<Rightarrow> tfjob option \<times> 'c world" where
  "inspect expected_condition status_callback results w =
     (case results of
        None \<Rightarrow> (None, w)
      | Some j \<Rightarrow>
          if tfjob_truthy j then
            (let w' = run_callback status_callback j w in
             if any_expected (poll_conditions j) expected_condition then (Some j, w')
             else (None, w'))
          else (None, w))"

text \<open>
  The body of \<open>while True\<close> in \<open>wait_for_condition\<close>, one script entry per iteration.
  The result is the value returned or the exception raised, the world and the answers
  not yet asked for.
\<close>

fun wait_for_condition_loop ::
  "string \<Rightarrow> string \<Rightarrow> string list \<Rightarrow> timedelta \<Rightarrow> (tfjob \<Rightarrow> 'c \<Rightarrow> 'c) option \<Rightarrow> int
     \<Rightarrow> api_script \<Rightarrow> 'c world \<Rightarrow> ((exn + tfjob) \<times> 'c world \<times> api_script) option" where
  "wait_for_condition_loop namespace name expected_condition polling_interval
       status_callback end_time [] w = None"
| "wait_for_condition_loop namespace name expected_condition polling_interval
       status_callback end_time ((r, dt) # rest) w =
     (case fetch_results r of
        Inl e \<Rightarrow> Some (Inl e, elapse dt w, rest)
      | Inr results \<Rightarrow>
          (case inspect expected_condition status_callback results (elapse dt w) of
             (Some j, w') \<Rightarrow> Some (Inr j, w', rest)
           | (None, w') \<Rightarrow>
               if now w' + polling_interval > end_time then
                 Some (Inl (JobTimeoutError name namespace expected_condition results), w', rest)
               else
                 wait_for_condition_loop namespace name expected_condition polling_interval
                   status_callback end_time rest (sleep (td_seconds polling_interval) w')))"

definition wait_for_condition ::
  "string \<Rightarrow> string \<Rightarrow> string list \<Rightarrow> timedelta \<Rightarrow> timedelta \<Rightarrow> (tfjob \<Rightarrow> 'c \<Rightarrow> 'c) option
     \<Rightarrow> api_script \<Rightarrow> 'c world \<Rightarrow> ((exn + tfjob) \<times> 'c world \<times> api_script) option" where
  "wait_for_condition namespace name expected_condition timeout polling_interval
       status_callback script w =
     wait_for_condition_loop namespace name expected_condition polling_interval
       status_callback (now w + timeout) script w"

text \<open>
  The payload of the timeout as the specification words it: the last-observed status,
  that is the job of the most recent fetch that succeeded among the answers received,
  and nothing when none succeeded.
\<close>

definition last_observed_spec :: "api_script \<Rightarrow> tfjob option" where
  "last_observed_spec answers =
     foldl (\<lambda>seen (r, dt). case r of Inr j \<Rightarrow> Some j | Inl e \<Rightarrow> seen) None answers"

definition wait_for_job ::
  "string \<Rightarrow> string \<Rightarrow> timedelta \<Rightarrow> timedelta \<Rightarrow> (tfjob \<Rightarrow> 'c \<Rightarrow> 'c) option
     \<Rightarrow> api_script \<Rightarrow> 'c world \<Rightarrow> ((exn + tfjob) \<times> 'c world \<times> api_script) option" where
  "wait_for_job namespace name timeout polling_interval status_callback script w =
     wait_for_condition namespace name [''Succeeded'', ''Failed''] timeout polling_interval
       status_callback script w"

text \<open>
  \<open>wait_for_delete\<close>: the get is synchronous. An \<open>ApiException\<close> with status
  \<open>NOT_FOUND\<close> ends the wait with a plain \<open>return\<close>, any other exception goes to the
  caller; after a successful get the callback runs, when one is given, whatever the
  resource is.
\<close>

fun wait_for_delete_loop ::
  "string \<Rightarrow> string \<Rightarrow> timedelta \<Rightarrow> (tfjob \<Rightarrow> 'c \<Rightarrow> 'c) option \<Rightarrow> int
     \<Rightarrow> api_script \<Rightarrow> 'c world \<Rightarrow> ((exn + unit) \<times> 'c world \<times> api_script) option" where
  "wait_for_delete_loop namespace name polling_interval status_callback end_time [] w = None"
| "wait_for_delete_loop namespace name polling_interval status_callback end_time
       ((r, dt) # rest) w =
     (case r of
        Inl e \<Rightarrow>
          (case e of
             ApiException st \<Rightarrow>
               if st = NOT_FOUND then Some (Inr (), elapse dt w, rest)
               else Some (Inl (Raised e), elapse dt w, rest)
           | _ \<Rightarrow> Some (Inl (Raised e), elapse dt w, rest))
      | Inr results \<Rightarrow>
          (let w' = run_callback status_callback results (elapse dt w) in
           if now w' + polling_interval > end_time then
             Some (Inl (TimeoutError name namespace), w', rest)
           else
             wait_for_delete_loop namespace name polling_interval status_callback end_time
               rest (sleep (td_seconds polling_interval) w')))"

definition wait_for_delete ::
  "string \<Rightarrow> string \<Rightarrow> timedelta \<Rightarrow> timedelta \<Rightarrow> (tfjob \<Rightarrow> 'c \<Rightarrow> 'c) option
     \<Rightarrow> api_script \<Rightarrow> 'c world \<Rightarrow> ((exn + unit) \<times> 'c world \<times> api_script) option" where
  "wait_for_delete namespace name timeout polling_interval status_callback script w =
     wait_for_delete_loop namespace name polling_interval status_callback
       (now w + timeout) script w"

section \<open>Creation failures\<close>

text \<open>
  \<open>num_expected\<close>: the loop over the keys of \<open>tfReplicaSpecs\<close>. Each key is looked up
  again in the dict (\<open>map_of\<close>), with the empty dict as default; an entry that passes the
  truth test adds its \<open>replicas\<close>, or 1 when it declares none.
\<close>

definition get_tfReplicaSpecs :: "tfjob \<Rightarrow> (string \<times> replica_spec) list" where
  "get_tfReplicaSpecs j =
     (case spec j of
        None \<Rightarrow> []
      | Some s \<Rightarrow> (case tfReplicaSpecs s of None \<Rightarrow> [] | Some rs \<Rightarrow> rs))"

definition get_replica_spec :: "(string \<times> replica_spec) list \<Rightarrow> string \<Rightarrow> replica_spec" where
  "get_replica_spec rs replicakey =
     (case map_of rs replicakey of
        None \<Rightarrow> \<lparr>replicas = None, other_fields = []\<rparr>
      | Some r \<Rightarrow> r)"

definition get_replicas :: "replica_spec \<Rightarrow> int" where
  "get_replicas r = (case replicas r of None \<Rightarrow> 1 | Some n \<Rightarrow> n)"

definition num_expected :: "tfjob \<Rightarrow> int" where
  "num_expected j =
     foldl (\<lambda>n replicakey.
              let replica_spec = get_replica_spec (get_tfReplicaSpecs j) replicakey
              in if replica_spec_truthy replica_spec then n + get_replicas replica_spec else n)
       0 (map fst (get_tfReplicaSpecs j))"

text \<open>
  The expected total as the specification words it: the sum, over every entry of the
  spec, of its declared count, 1 for an entry that declares none.
\<close>

definition expected_total_spec :: "tfjob \<Rightarrow> int" where
  "expected_total_spec j = sum_list (map (\<lambda>(k, r). get_replicas r) (get_tfReplicaSpecs j))"

definition pods_message :: "int \<Rightarrow> nat \<Rightarrow> string" where
  "pods_message expected got =
     ''Expected '' @ str_int expected @ '' pods to be created but only got ''
       @ str_nat got @ '' create events.''"

definition services_message :: "int \<Rightarrow> nat \<Rightarrow> string" where
  "services_message expected got =
     ''Expected '' @ str_int expected @ '' services to be created but only got ''
       @ str_nat got @ '' create events.''"

text \<open>
  \<open>get_creation_failures_from_tfjob(api_client, namespace, tfjob)\<close>.
  \<open>k8s_util.get_events\<close> and \<open>k8s_util.parse_events\<close> belong to a module outside these
  sources, so they are parameters: the events of a namespace and owner uid, and the pods
  and the services an event list reports as created. Only the sizes of the two
  collections are read.
\<close>

definition get_creation_failures_from_tfjob ::
  "(string \<Rightarrow> string option \<Rightarrow> 'e list) \<Rightarrow> ('e list \<Rightarrow> 'p list \<times> 's list)
     \<Rightarrow> string \<Rightarrow> tfjob \<Rightarrow> string list" where
  "get_creation_failures_from_tfjob get_events parse_events namespace j =
     (let job_uid = (case metadata j of None \<Rightarrow> None | Some m \<Rightarrow> uid m);
          events = get_events namespace job_uid;
          (created_pods, created_services) = parse_events events;
          n = num_expected j;
          creation_failures = [];
          creation_failures =
            (if int (length created_pods) \<noteq> n
             then creation_failures @ [pods_message n (length created_pods)]
             else creation_failures);
          creation_failures =
            (if int (length created_services) \<noteq> n
             then creation_failures @ [services_message n (length created_services)]
             else creation_failures)
      in creation_failures)"

section \<open>Terminating replicas and verifying restarts\<close>

text \<open>
  The cluster the restart check talks to is a script as well, with one list of answers
  per collaborator call: \<open>k8s_util.wait_for_pods_to_be_in_phases\<close> returns or raises
  (\<open>pod_waits\<close>), \<open>k8s_util.get_container_start_time\<close> returns a start time or raises
  (\<open>start_times\<close>, the times in seconds), and \<open>util.send_request\<close> returns or raises
  (\<open>sends\<close>). Every call is logged with its arguments in \<open>calls\<close>, so that a run shows
  which pods it waited for and which replica it terminated. A call whose list of answers
  is used up has no result (\<open>None\<close>).

  Each answer to \<open>send_request\<close> comes with the time since the first attempt, in
  milliseconds, that the \<open>retrying\<close> decorator of \<open>terminate_replica\<close> measures after it.
\<close>

datatype call =
    WaitForPods string string "string list" timedelta
  | GetContainerStartTime string string int string
  | SendRequest string string string string "(string \<times> int) list"
  | RetrySleep nat

record cluster =
  pod_waits :: "api_exn option list"
  start_times :: "(api_exn + int) list"
  sends :: "(api_exn option \<times> int) list"
  calls :: "call list"

definition minutes :: "int \<Rightarrow> timedelta" where
  "minutes m = m * 60 * 1000000"

definition wait_for_pods_to_be_in_phases ::
  "string \<Rightarrow> string \<Rightarrow> string list \<Rightarrow> timedelta \<Rightarrow> cluster \<Rightarrow> ((exn + unit) \<times> cluster) option" where
  "wait_for_pods_to_be_in_phases namespace pod_selector phases timeout c =
     (case pod_waits c of
        [] \<Rightarrow> None
      | r # rs \<Rightarrow>
          Some ((case r of None \<Rightarrow> Inr () | Some e \<Rightarrow> Inl (Raised e)),
                c\<lparr>pod_waits := rs,
                  calls := calls c @ [WaitForPods namespace pod_selector phases timeout]\<rparr>))"

definition get_container_start_time ::
  "string \<Rightarrow> string \<Rightarrow> int \<Rightarrow> string \<Rightarrow> cluster \<Rightarrow> ((exn + int) \<times> cluster) option" where
  "get_container_start_time namespace pod_selector index phase c =
     (case start_times c of
        [] \<Rightarrow> None
      | r # rs \<Rightarrow>
          Some ((case r of Inr t \<Rightarrow> Inr t | Inl e \<Rightarrow> Inl (Raised e)),
                c\<lparr>start_times := rs,
                  calls := calls c @ [GetContainerStartTime namespace pod_selector index phase]\<rparr>))"

text \<open>
  Statements in sequence: an exception of the first ends the run, as does a call that
  has no answer.
\<close>

definition returns :: "'a \<Rightarrow> cluster \<Rightarrow> ((exn + 'a) \<times> cluster) option" where
  "returns v c = Some (Inr v, c)"

definition and_then ::
  "(cluster \<Rightarrow> ((exn + 'a) \<times> cluster) option) \<Rightarrow> ('a \<Rightarrow> cluster \<Rightarrow> ((exn + 'b) \<times> cluster) option)
     \<Rightarrow> cluster \<Rightarrow> ((exn + 'b) \<times> cluster) option" where
  "and_then m f c =
     (case m c of
        None \<Rightarrow> None
      | Some (Inl e, c') \<Rightarrow> Some (Inl e, c')
      | Some (Inr v, c') \<Rightarrow> f v c')"

definition wait_for_replica_type_in_phases ::
  "string \<Rightarrow> string \<Rightarrow> string \<Rightarrow> string list \<Rightarrow> cluster \<Rightarrow> ((exn + unit) \<times> cluster) option" where
  "wait_for_replica_type_in_phases namespace tfjob_name replica_type phases =
     (let pod_labels = get_labels tfjob_name (Some replica_type) None;
          pod_selector = to_selector pod_labels
      in wait_for_pods_to_be_in_phases namespace pod_selector phases (minutes 30))"

text \<open>
  \<open>terminate_replica\<close> under \<open>@retrying.retry(wait_fixed=10, stop_max_delay=60)\<close>:
  the request is sent again after a failure, 10 milliseconds later, until one attempt
  succeeds or the time since the first attempt has reached 60 milliseconds, when the
  exception of the last attempt goes to the caller.
\<close>

definition wait_fixed :: nat where
  "wait_fixed = 10"

definition stop_max_delay :: int where
  "stop_max_delay = 60"

fun send_with_retry ::
  "call \<Rightarrow> (api_exn option \<times> int) list \<Rightarrow> call list
     \<Rightarrow> ((exn + unit) \<times> (api_exn option \<times> int) list \<times> call list) option" where
  "send_with_retry request [] log = None"
| "send_with_retry request ((r, delay_since_first_attempt) # rest) log =
     (case r of
        None \<Rightarrow> Some (Inr (), rest, log @ [request])
      | Some e \<Rightarrow>
          if delay_since_first_attempt \<ge> stop_max_delay
          then Some (Inl (Raised e), rest, log @ [request])
          else send_with_retry request rest (log @ [request, RetrySleep wait_fixed]))"

definition terminate_replica ::
  "string \<Rightarrow> string \<Rightarrow> string \<Rightarrow> int \<Rightarrow> cluster \<Rightarrow> ((exn + unit) \<times> cluster) option" where
  "terminate_replica master_host namespace target exit_code c =
     (let params = [(''exitCode'', exit_code)] in
      case send_with_retry (SendRequest master_host namespace target ''exit'' params)
             (sends c) (calls c) of
        None \<Rightarrow> None
      | Some (r, rest, log) \<Rightarrow> Some (r, c\<lparr>sends := rest, calls := log\<rparr>))"

text \<open>The loop \<open>for num in range(num_targets)\<close> of \<open>terminate_replicas\<close>.\<close>

fun terminate_each ::
  "string \<Rightarrow> string \<Rightarrow> string \<Rightarrow> int \<Rightarrow> nat list \<Rightarrow> cluster \<Rightarrow> ((exn + unit) \<times> cluster) option" where
  "terminate_each master_host namespace target exit_code [] c = Some (Inr (), c)"
| "terminate_each master_host namespace target exit_code (num # nums) c =
     (let full_target = target @ ''-'' @ str_nat num in
      case terminate_replica master_host namespace full_target exit_code c of
        None \<Rightarrow> None
      | Some (Inl e, c') \<Rightarrow> Some (Inl e, c')
      | Some (Inr u, c') \<Rightarrow> terminate_each master_host namespace target exit_code nums c')"

text \<open>
  \<open>terminate_replicas(api_client, namespace, name, replica, num_targets, exit_code)\<close>;
  \<open>master_host\<close> is \<open>api_client.configuration.host\<close>.
\<close>

definition terminate_replicas ::
  "string \<Rightarrow> string \<Rightarrow> string \<Rightarrow> string \<Rightarrow> int \<Rightarrow> int \<Rightarrow> cluster
     \<Rightarrow> ((exn + unit) \<times> cluster) option" where
  "terminate_replicas master_host namespace name replica num_targets exit_code =
     (let target = name @ ''-'' @ replica;
          pod_labels = get_labels name (Some replica) None;
          pod_selector = to_selector pod_labels
      in and_then
           (wait_for_pods_to_be_in_phases namespace pod_selector [''Running''] (minutes 15))
           (\<lambda>u. terminate_each master_host namespace target exit_code [0 ..< nat num_targets]))"

definition get_start_time_by_index ::
  "string \<Rightarrow> string \<Rightarrow> string \<Rightarrow> int \<Rightarrow> string \<Rightarrow> cluster \<Rightarrow> ((exn + int) \<times> cluster) option" where
  "get_start_time_by_index namespace name replica_type replica_index phase =
     (let pod_labels = get_labels name (Some replica_type) None;
          pod_selector = to_selector pod_labels
      in get_container_start_time namespace pod_selector replica_index phase)"

text \<open>
  \<open>terminate_and_verify_start_time\<close>. The waits and the termination name the replica
  type \<open>"ps"\<close> and one target; the start-time lookups use \<open>replica_type\<close> and
  \<open>replica_index\<close>.
\<close>

definition terminate_and_verify_start_time ::
  "string \<Rightarrow> string \<Rightarrow> string \<Rightarrow> string \<Rightarrow> int \<Rightarrow> int \<Rightarrow> bool \<Rightarrow> cluster
     \<Rightarrow> ((exn + bool) \<times> cluster) option" where
  "terminate_and_verify_start_time master_host namespace name replica_type replica_index
       exit_code expect_restart =
     and_then (wait_for_replica_type_in_phases namespace name ''ps'' [''Running'']) (\<lambda>u.
     and_then (get_start_time_by_index namespace name replica_type replica_index ''Running'')
       (\<lambda>first_start_time.
     and_then (terminate_replicas master_host namespace name ''ps'' 1 exit_code) (\<lambda>u.
     if expect_restart then
       and_then (wait_for_replica_type_in_phases namespace name ''ps'' [''Running'']) (\<lambda>u.
       and_then (get_start_time_by_index namespace name replica_type replica_index ''Running'')
         (\<lambda>restart_time.
       if restart_time \<le> first_start_time then returns False else returns True))
     else if \<not> expect_restart \<and> exit_code = 0 then
       and_then (wait_for_replica_type_in_phases namespace name ''ps'' [''Succeeded'']) (\<lambda>u.
       and_then (get_start_time_by_index namespace name replica_type replica_index ''Succeeded'')
         (\<lambda>restart_time.
       if restart_time \<noteq> first_start_time then returns False else returns True))
     else
       and_then (wait_for_replica_type_in_phases namespace name ''ps'' [''Failed'']) (\<lambda>u.
       and_then (get_start_time_by_index namespace name replica_type replica_index ''Failed'')
         (\<lambda>restart_time.
       if restart_time \<noteq> first_start_time then returns False else returns True)))))"

section \<open>Properties of the label builder\<close>

lemma foldl_parts:
  "foldl (\<lambda>parts (k, v). parts @ [format_label k v]) acc ls
     = acc @ map (\<lambda>(k, v). format_label k v) ls"
  by (induction ls arbitrary: acc) auto

lemma join_parts: "join '','' (map (\<lambda>(k, v). format_label k v) ls) = selector_spec ls"
  by (induction ls rule: selector_spec.induct) (auto simp: format_label_def)

lemma to_selector_spec: "to_selector ls = selector_spec ls"
  by (simp add: to_selector_def foldl_parts join_parts)

text \<open>
  C7, as amended. For every job name, replica type and replica index, the labels of
  \<open>get_labels\<close> hold the group label \<open>group-name\<close> and the job-name label; the
  \<open>replica-type\<close> label, with the lower-cased type, exactly when a replica type is given
  and is not the empty string; and the \<open>replica-index\<close> label exactly when an index is
  given and is not zero.
\<close>

theorem get_labels_contents:
  "map_of (get_labels name replica_type replica_index) ''group-name''
     = Some (LStr ''kubeflow.org'')
   \<and> map_of (get_labels name replica_type replica_index) TF_JOB_NAME_LABEL = Some (LStr name)
   \<and> map_of (get_labels name replica_type replica_index) ''replica-type''
       = (case replica_type of
            None \<Rightarrow> None
          | Some t \<Rightarrow> if t = [] then None else Some (LStr (lower t)))
   \<and> map_of (get_labels name replica_type replica_index) ''replica-index''
       = (case replica_index of
            None \<Rightarrow> None
          | Some i \<Rightarrow> if i = 0 then None else Some (LInt i))"
  by (auto simp: get_labels_def TF_JOB_NAME_LABEL_def Let_def split: option.splits)

text \<open>
  C7 as stated fails: a replica type that is provided but empty gets no
  \<open>replica-type\<close> label, because the guard \<open>if replica_type:\<close> is a truth test.
\<close>

theorem get_labels_empty_type_counterexample:
  "map_of (get_labels ''mnist'' (Some []) None) ''replica-type'' = None"
  by (simp add: get_labels_def TF_JOB_NAME_LABEL_def)

text \<open>
  C9. \<open>get_labels\<close> and \<open>to_selector\<close> are functions of their arguments alone: equal
  inputs give equal label sets and equal selector strings. The selector of a label set is
  its \<open>key=value\<close> pairs joined by commas, in the iteration order of the mapping.
\<close>

theorem selector_deterministic:
  assumes "name = name'" and "replica_type = replica_type'" and "replica_index = replica_index'"
  shows "get_labels name replica_type replica_index
           = get_labels name' replica_type' replica_index'
    \<and> to_selector (get_labels name replica_type replica_index)
           = to_selector (get_labels name' replica_type' replica_index')
    \<and> to_selector labels = selector_spec labels"
  using assms by (simp add: to_selector_spec)

theorem selector_deterministic_witness:
  "to_selector (get_labels ''mnist'' (Some ''Worker'') (Some 2))
     = ''group-name=kubeflow.org,job-name=mnist,replica-type=worker,replica-index=2''
   \<and> selector_spec (get_labels ''mnist'' (Some ''Worker'') (Some 2))
     = ''group-name=kubeflow.org,job-name=mnist,replica-type=worker,replica-index=2''"
  using selector_deterministic [of "''mnist''" "''mnist''" "Some ''Worker''" "Some ''Worker''"
      "Some 2" "Some 2" "get_labels ''mnist'' (Some ''Worker'') (Some 2)"]
  by (simp add: get_labels_def to_selector_def TF_JOB_NAME_LABEL_def lower_def lower_char_def
      format_label_def str_int_def)

section \<open>Properties of \<open>job_succeeded\<close>\<close>

lemma py_last_snoc: "py_last (xs @ [x]) = Inr x"
  by (induction xs rule: py_last.induct) auto

text \<open>
  C8. When the condition sequence of the status is not empty, \<open>job_succeeded\<close> returns
  whether the type of the last entry, lower-cased, is \<open>succeeded\<close>, whatever the earlier
  entries are.
\<close>

theorem job_succeeded_last_entry:
  assumes "status j = Some s" and "conditions s = Given (earlier @ [c])"
  shows "job_succeeded j = Inr (lower (get_type c) = ''succeeded'')"
  using assms
  by (simp add: job_succeeded_def get_status_def get_conditions_def py_last_snoc)

theorem job_succeeded_last_entry_witness:
  "job_succeeded \<lparr>metadata = None, spec = None,
      status = Some \<lparr>conditions =
        Given [\<lparr>cond_type = Some ''Succeeded''\<rparr>, \<lparr>cond_type = Some ''Running''\<rparr>]\<rparr>,
      other_keys = []\<rparr> = Inr False
   \<and> job_succeeded \<lparr>metadata = None, spec = None,
      status = Some \<lparr>conditions =
        Given [\<lparr>cond_type = Some ''Failed''\<rparr>, \<lparr>cond_type = Some ''Succeeded''\<rparr>]\<rparr>,
      other_keys = []\<rparr> = Inr True"
  using
    job_succeeded_last_entry [of
      "\<lparr>metadata = None, spec = None,
        status = Some \<lparr>conditions =
          Given [\<lparr>cond_type = Some ''Succeeded''\<rparr>, \<lparr>cond_type = Some ''Running''\<rparr>]\<rparr>,
        other_keys = []\<rparr>"
      "\<lparr>conditions = Given [\<lparr>cond_type = Some ''Succeeded''\<rparr>, \<lparr>cond_type = Some ''Running''\<rparr>]\<rparr>"
      "[\<lparr>cond_type = Some ''Succeeded''\<rparr>]" "\<lparr>cond_type = Some ''Running''\<rparr>"]
    job_succeeded_last_entry [of
      "\<lparr>metadata = None, spec = None,
        status = Some \<lparr>conditions =
          Given [\<lparr>cond_type = Some ''Failed''\<rparr>, \<lparr>cond_type = Some ''Succeeded''\<rparr>]\<rparr>,
        other_keys = []\<rparr>"
      "\<lparr>conditions = Given [\<lparr>cond_type = Some ''Failed''\<rparr>, \<lparr>cond_type = Some ''Succeeded''\<rparr>]\<rparr>"
      "[\<lparr>cond_type = Some ''Failed''\<rparr>]" "\<lparr>cond_type = Some ''Succeeded''\<rparr>"]
  by (simp add: get_type_def lower_def lower_char_def)

text \<open>
  C10. \<open>job_succeeded\<close> raises on a status whose \<open>conditions\<close> is the empty list
  (\<open>IndexError\<close>) or \<open>None\<close> (\<open>TypeError\<close>, from the same index expression), where
  \<open>wait_for_condition\<close> reads an empty condition sequence.
\<close>

theorem job_succeeded_partial:
  "job_succeeded
     \<lparr>metadata = m, spec = sp, status = Some \<lparr>conditions = Given []\<rparr>, other_keys = ks\<rparr>
     = Inl IndexError
   \<and> job_succeeded
     \<lparr>metadata = m, spec = sp, status = Some \<lparr>conditions = Null\<rparr>, other_keys = ks\<rparr>
     = Inl TypeError
   \<and> poll_conditions
     \<lparr>metadata = m, spec = sp, status = Some \<lparr>conditions = Given []\<rparr>, other_keys = ks\<rparr>
     = []
   \<and> poll_conditions
     \<lparr>metadata = m, spec = sp, status = Some \<lparr>conditions = Null\<rparr>, other_keys = ks\<rparr>
     = []"
  by (simp add: job_succeeded_def poll_conditions_def get_status_def get_conditions_def)

section \<open>Properties of the creation-failure check\<close>

lemma get_replica_spec_mem:
  "distinct (map fst rs) \<Longrightarrow> (k, r) \<in> set rs \<Longrightarrow> get_replica_spec rs k = r"
  by (simp add: get_replica_spec_def)

lemma num_expected_foldl:
  assumes keys: "distinct (map fst rs)" and sub: "set xs \<subseteq> set rs"
  shows "foldl (\<lambda>n replicakey.
                  let replica_spec = get_replica_spec rs replicakey
                  in if replica_spec_truthy replica_spec then n + get_replicas replica_spec
                     else n)
           acc (map fst xs)
         = acc + sum_list (map (\<lambda>(k, r). if replica_spec_truthy r then get_replicas r else 0) xs)"
  using sub
proof (induction xs arbitrary: acc)
  case Nil
  then show ?case by simp
next
  case (Cons x xs)
  obtain k r where x: "x = (k, r)" by (cases x)
  with Cons.prems have "(k, r) \<in> set rs" by simp
  with keys have "get_replica_spec rs k = r" by (rule get_replica_spec_mem)
  with Cons x show ?case by (simp add: Let_def)
qed

text \<open>
  C3, as amended. The keys of the \<open>tfReplicaSpecs\<close> dict are distinct, as the keys of a
  dict are. The expected total is the sum, over the replica-type entries of the spec, of
  the declared replica count, 1 for an entry that is not empty and declares no count, and
  nothing for an entry that is empty. The result holds the message about pods exactly when
  the number of created pods differs from the expected total, then the message about
  services exactly when the number of created services differs from it, and nothing else.
\<close>

theorem creation_failures_amended:
  assumes "distinct (map fst (get_tfReplicaSpecs j))"
      and "parse_events (get_events namespace (case metadata j of None \<Rightarrow> None | Some m \<Rightarrow> uid m))
             = (created_pods, created_services)"
  shows "num_expected j
           = sum_list (map (\<lambda>(k, r). if replica_spec_truthy r then get_replicas r else 0)
                         (get_tfReplicaSpecs j))
    \<and> get_creation_failures_from_tfjob get_events parse_events namespace j
           = (if int (length created_pods) = num_expected j then []
              else [pods_message (num_expected j) (length created_pods)])
             @ (if int (length created_services) = num_expected j then []
                else [services_message (num_expected j) (length created_services)])"
proof -
  have "num_expected j
           = sum_list (map (\<lambda>(k, r). if replica_spec_truthy r then get_replicas r else 0)
                         (get_tfReplicaSpecs j))"
    unfolding num_expected_def using num_expected_foldl [OF assms(1) subset_refl, of 0] by simp
  moreover have "get_creation_failures_from_tfjob get_events parse_events namespace j
           = (if int (length created_pods) = num_expected j then []
              else [pods_message (num_expected j) (length created_pods)])
             @ (if int (length created_services) = num_expected j then []
                else [services_message (num_expected j) (length created_services)])"
    using assms(2) by (simp add: get_creation_failures_from_tfjob_def Let_def)
  ultimately show ?thesis by simp
qed

text \<open>
  The scenario of the specification: the spec declares three workers and one parameter
  server (by default), three pods and four services were created.
\<close>

theorem creation_failures_amended_witness:
  "get_creation_failures_from_tfjob (\<lambda>ns u. [(1::nat), 2, 3]) (\<lambda>es. (es, 0 # es)) ''kubeflow''
     \<lparr>metadata = Some \<lparr>uid = Some ''u1''\<rparr>,
      spec = Some \<lparr>tfReplicaSpecs =
        Some [(''worker'', \<lparr>replicas = Some 3, other_fields = [''template'']\<rparr>),
              (''ps'', \<lparr>replicas = None, other_fields = [''template'']\<rparr>)]\<rparr>,
      status = None, other_keys = []\<rparr>
   = [''Expected 4 pods to be created but only got 3 create events.'']"
  using creation_failures_amended [of
      "\<lparr>metadata = Some \<lparr>uid = Some ''u1''\<rparr>,
        spec = Some \<lparr>tfReplicaSpecs =
          Some [(''worker'', \<lparr>replicas = Some 3, other_fields = [''template'']\<rparr>),
                (''ps'', \<lparr>replicas = None, other_fields = [''template'']\<rparr>)]\<rparr>,
        status = None, other_keys = []\<rparr>"
      "\<lambda>es. (es, 0 # es)" "\<lambda>ns u. [(1::nat), 2, 3]" "''kubeflow''" "[1, 2, 3]" "[0, 1, 2, 3]"]
  by (simp add: get_tfReplicaSpecs_def replica_spec_truthy_def get_replicas_def
      pods_message_def str_int_def)

text \<open>
  C3 as stated fails: an entry that is present, empty and so without a declared count adds
  nothing to the expected total, where the claim counts 1 for it. The guard
  \<open>if replica_spec:\<close> skips it.
\<close>

theorem creation_failures_empty_entry_counterexample:
  "num_expected
     \<lparr>metadata = None,
      spec = Some \<lparr>tfReplicaSpecs = Some [(''worker'', \<lparr>replicas = None, other_fields = []\<rparr>)]\<rparr>,
      status = None, other_keys = []\<rparr> = 0
   \<and> expected_total_spec
     \<lparr>metadata = None,
      spec = Some \<lparr>tfReplicaSpecs = Some [(''worker'', \<lparr>replicas = None, other_fields = []\<rparr>)]\<rparr>,
      status = None, other_keys = []\<rparr> = 1"
  by (simp add: num_expected_def expected_total_spec_def get_tfReplicaSpecs_def
      get_replica_spec_def replica_spec_truthy_def get_replicas_def)

section \<open>Properties of the polling loops\<close>

lemma any_expected_iff:
  "any_expected cs expected_condition = (\<exists>c \<in> set cs. get_type c \<in> set expected_condition)"
  by (induction cs) auto

lemma loop_timeout_payload:
  "wait_for_condition_loop namespace name expected_condition polling_interval status_callback
       end_time script w = Some (Inl (JobTimeoutError n ns ex payload), w', rest) \<Longrightarrow>
   \<exists>consumed r dt. script = consumed @ (r, dt) # rest \<and>
       payload = (case r of Inr j \<Rightarrow> Some j | Inl e \<Rightarrow> None)"
proof (induction script arbitrary: w)
  case Nil
  then show ?case by simp
next
  case (Cons a script)
  obtain r dt where a: "a = (r, dt)" by (cases a)
  show ?case
  proof (cases "fetch_results r")
    case (Inl e)
    with Cons.prems a show ?thesis
      by (auto simp: fetch_results_def split: sum.splits if_splits)
  next
    case (Inr results)
    obtain found w1 where
      i: "inspect expected_condition status_callback results (elapse dt w) = (found, w1)"
      by (cases "inspect expected_condition status_callback results (elapse dt w)")
    show ?thesis
    proof (cases found)
      case (Some j)
      with Cons.prems a Inr i show ?thesis by simp
    next
      case None
      show ?thesis
      proof (cases "now w1 + polling_interval > end_time")
        case True
        with Cons.prems a Inr i None have "payload = results" and "rest = script"
          by simp_all
        moreover have "results = (case r of Inr j \<Rightarrow> Some j | Inl e \<Rightarrow> None)"
          using Inr by (auto simp: fetch_results_def split: sum.splits if_splits)
        ultimately show ?thesis
          using a by (intro exI [of _ "[]"] exI [of _ r] exI [of _ dt]) simp
      next
        case False
        with Cons.prems a Inr i None have
          "wait_for_condition_loop namespace name expected_condition polling_interval
             status_callback end_time script (sleep (td_seconds polling_interval) w1)
           = Some (Inl (JobTimeoutError n ns ex payload), w', rest)"
          by simp
        from Cons.IH [OF this] obtain consumed r' dt' where
          "script = consumed @ (r', dt') # rest"
          and "payload = (case r' of Inr j \<Rightarrow> Some j | Inl e \<Rightarrow> None)"
          by blast
        then show ?thesis
          using a by (intro exI [of _ "a # consumed"] exI [of _ r'] exI [of _ dt']) simp
      qed
    qed
  qed
qed

text \<open>
  C4, as amended. Whenever \<open>wait_for_condition\<close> ends by raising \<open>JobTimeoutError\<close>,
  the error carries the result of the fetch of the last iteration, the one whose deadline
  check failed: the job that fetch returned, and nothing when that fetch timed out,
  whatever the fetches of earlier iterations returned. And an iteration whose fetch gave
  \<open>results\<close>, found no match and fails the deadline check does raise
  \<open>JobTimeoutError\<close> with these \<open>results\<close>.
\<close>

theorem timeout_payload_amended:
  "(wait_for_condition namespace name expected_condition timeout polling_interval
        status_callback script w
      = Some (Inl (JobTimeoutError n ns ex payload), w', rest)
    \<longrightarrow> (\<exists>consumed r dt. script = consumed @ (r, dt) # rest \<and>
           payload = (case r of Inr j \<Rightarrow> Some j | Inl e \<Rightarrow> None)))
   \<and> (fetch_results r0 = Inr results
      \<and> inspect expected_condition status_callback results (elapse dt0 w0) = (None, w1)
      \<and> now w1 + polling_interval > end_time
    \<longrightarrow> wait_for_condition_loop namespace name expected_condition polling_interval
          status_callback end_time ((r0, dt0) # rest0) w0
        = Some (Inl (JobTimeoutError name namespace expected_condition results), w1, rest0))"
proof -
  have "\<exists>consumed r dt. script = consumed @ (r, dt) # rest \<and>
           payload = (case r of Inr j \<Rightarrow> Some j | Inl e \<Rightarrow> None)"
    if "wait_for_condition namespace name expected_condition timeout polling_interval
          status_callback script w
        = Some (Inl (JobTimeoutError n ns ex payload), w', rest)"
    using loop_timeout_payload [OF that [unfolded wait_for_condition_def]] .
  then show ?thesis by simp
qed

lemma timeout_run_evaluated:
  "wait_for_condition ''kubeflow'' ''mnist'' [''Succeeded'', ''Failed''] 40000000 30000000 None
     [(Inr \<lparr>metadata = None, spec = None,
             status = Some \<lparr>conditions = Given [\<lparr>cond_type = Some ''Created''\<rparr>]\<rparr>,
             other_keys = []\<rparr>, 0),
      (Inr \<lparr>metadata = None, spec = None,
             status = Some \<lparr>conditions = Given [\<lparr>cond_type = Some ''Running''\<rparr>]\<rparr>,
             other_keys = []\<rparr>, 0)]
     \<lparr>now = 0, slept = [], caller = ()\<rparr>
   = Some (Inl (JobTimeoutError ''mnist'' ''kubeflow'' [''Succeeded'', ''Failed'']
                 (Some \<lparr>metadata = None, spec = None,
                   status = Some \<lparr>conditions = Given [\<lparr>cond_type = Some ''Running''\<rparr>]\<rparr>,
                   other_keys = []\<rparr>)),
           \<lparr>now = 30000000, slept = [30], caller = ()\<rparr>, [])"
  by (simp add: wait_for_condition_def fetch_results_def inspect_def tfjob_truthy_def
      run_callback_def poll_conditions_def get_status_def get_conditions_def get_type_def
      elapse_def sleep_def td_seconds_def)

theorem timeout_payload_amended_witness:
  "\<exists>consumed r dt.
     [(Inr \<lparr>metadata = None, spec = None,
             status = Some \<lparr>conditions = Given [\<lparr>cond_type = Some ''Created''\<rparr>]\<rparr>,
             other_keys = []\<rparr>, 0),
      (Inr \<lparr>metadata = None, spec = None,
             status = Some \<lparr>conditions = Given [\<lparr>cond_type = Some ''Running''\<rparr>]\<rparr>,
             other_keys = []\<rparr>, 0)]
       = consumed @ (r :: api_exn + tfjob, dt :: int) # []
     \<and> Some \<lparr>metadata = None, spec = None,
               status = Some \<lparr>conditions = Given [\<lparr>cond_type = Some ''Running''\<rparr>]\<rparr>,
               other_keys = []\<rparr>
       = (case r of Inr j \<Rightarrow> Some j | Inl e \<Rightarrow> None)"
  using timeout_payload_amended [THEN conjunct1, rule_format, OF timeout_run_evaluated] .

text \<open>
  C4 as stated fails: \<open>results\<close> is set to \<open>None\<close> at the start of every iteration,
  so a run whose first fetch returns the job and whose second fetch times out raises
  \<open>JobTimeoutError\<close> with no job, although a fetch had succeeded.
\<close>

theorem timeout_payload_counterexample:
  "wait_for_condition ''kubeflow'' ''mnist'' [''Succeeded'', ''Failed''] 40000000 30000000 None
     [(Inr \<lparr>metadata = None, spec = None,
             status = Some \<lparr>conditions = Given [\<lparr>cond_type = Some ''Running''\<rparr>]\<rparr>,
             other_keys = []\<rparr>, 0),
      (Inl MPTimeoutError, 0)]
     \<lparr>now = 0, slept = [], caller = ()\<rparr>
   = Some (Inl (JobTimeoutError ''mnist'' ''kubeflow'' [''Succeeded'', ''Failed''] None),
           \<lparr>now = 30000000, slept = [30], caller = ()\<rparr>, [])
   \<and> last_observed_spec
     [(Inr \<lparr>metadata = None, spec = None,
             status = Some \<lparr>conditions = Given [\<lparr>cond_type = Some ''Running''\<rparr>]\<rparr>,
             other_keys = []\<rparr>, 0),
      (Inl MPTimeoutError, 0)]
   = Some \<lparr>metadata = None, spec = None,
             status = Some \<lparr>conditions = Given [\<lparr>cond_type = Some ''Running''\<rparr>]\<rparr>,
             other_keys = []\<rparr>"
  by (simp add: wait_for_condition_def fetch_results_def inspect_def tfjob_truthy_def
      run_callback_def poll_conditions_def get_status_def get_conditions_def get_type_def
      elapse_def sleep_def td_seconds_def last_observed_spec_def)

text \<open>
  C5. The fetch of an iteration has returned a job with a status. When the condition
  sequence of the status has an entry whose type is expected, wherever it stands,
  \<open>wait_for_condition\<close> returns that job in the same iteration: the callback has seen
  the job, nothing was slept and no further answer was asked for. When no entry of the
  sequence has an expected type, the job is not returned: the iteration ends in the
  deadline check, which raises \<open>JobTimeoutError\<close> with the job or sleeps and goes on
  with the next answer. A job whose status is missing, or whose conditions are missing,
  \<open>None\<close> or the empty list, is treated like a job with no conditions: no other error
  is raised, and the iteration ends in the same deadline check.
\<close>

theorem condition_match_returns:
  "(status j = Some s \<and> conditions s = Given cs
      \<and> (\<exists>c \<in> set cs. get_type c \<in> set expected_condition)
    \<longrightarrow> wait_for_condition_loop namespace name expected_condition polling_interval
            status_callback end_time ((Inr j, dt) # rest) w
          = Some (Inr j, run_callback status_callback j (elapse dt w), rest)
        \<and> wait_for_condition namespace name expected_condition timeout polling_interval
            status_callback ((Inr j, dt) # rest) w
          = Some (Inr j, run_callback status_callback j (elapse dt w), rest)
        \<and> slept (run_callback status_callback j (elapse dt w)) = slept w)
   \<and> (status j = Some s \<and> conditions s = Given cs
      \<and> \<not> (\<exists>c \<in> set cs. get_type c \<in> set expected_condition)
    \<longrightarrow> wait_for_condition_loop namespace name expected_condition polling_interval
            status_callback end_time ((Inr j, dt) # rest) w
          = (if now (run_callback status_callback j (elapse dt w)) + polling_interval > end_time
             then Some (Inl (JobTimeoutError name namespace expected_condition (Some j)),
                        run_callback status_callback j (elapse dt w), rest)
             else wait_for_condition_loop namespace name expected_condition polling_interval
                    status_callback end_time rest
                    (sleep (td_seconds polling_interval)
                       (run_callback status_callback j (elapse dt w)))))
   \<and> (status j = None
        \<or> status j = Some s
          \<and> (conditions s = Missing \<or> conditions s = Null \<or> conditions s = Given [])
    \<longrightarrow> wait_for_condition_loop namespace name expected_condition polling_interval
            status_callback end_time ((Inr j, dt) # rest) w
          = (let w1 = (if tfjob_truthy j then run_callback status_callback j (elapse dt w)
                       else elapse dt w)
             in if now w1 + polling_interval > end_time
                then Some (Inl (JobTimeoutError name namespace expected_condition (Some j)),
                           w1, rest)
                else wait_for_condition_loop namespace name expected_condition
                       polling_interval status_callback end_time rest
                       (sleep (td_seconds polling_interval) w1)))"
proof (intro conjI impI)
  assume a: "status j = Some s \<and> conditions s = Given cs
      \<and> (\<exists>c \<in> set cs. get_type c \<in> set expected_condition)"
  then have truthy: "tfjob_truthy j" by (simp add: tfjob_truthy_def)
  from a have conds: "poll_conditions j = cs"
    by (simp add: poll_conditions_def get_status_def get_conditions_def)
  from a have found: "any_expected cs expected_condition" by (simp add: any_expected_iff)
  from truthy conds found
  show "wait_for_condition_loop namespace name expected_condition polling_interval
            status_callback end_time ((Inr j, dt) # rest) w
          = Some (Inr j, run_callback status_callback j (elapse dt w), rest)"
    by (simp add: fetch_results_def inspect_def Let_def)
  from truthy conds found
  show "wait_for_condition namespace name expected_condition timeout polling_interval
            status_callback ((Inr j, dt) # rest) w
          = Some (Inr j, run_callback status_callback j (elapse dt w), rest)"
    by (simp add: wait_for_condition_def fetch_results_def inspect_def Let_def)
  show "slept (run_callback status_callback j (elapse dt w)) = slept w"
    by (simp add: run_callback_def elapse_def split: option.splits)
next
  assume a: "status j = Some s \<and> conditions s = Given cs
      \<and> \<not> (\<exists>c \<in> set cs. get_type c \<in> set expected_condition)"
  then have truthy: "tfjob_truthy j" by (simp add: tfjob_truthy_def)
  from a have conds: "poll_conditions j = cs"
    by (simp add: poll_conditions_def get_status_def get_conditions_def)
  from a have none: "\<not> any_expected cs expected_condition" by (simp add: any_expected_iff)
  from truthy conds none
  show "wait_for_condition_loop namespace name expected_condition polling_interval
            status_callback end_time ((Inr j, dt) # rest) w
          = (if now (run_callback status_callback j (elapse dt w)) + polling_interval > end_time
             then Some (Inl (JobTimeoutError name namespace expected_condition (Some j)),
                        run_callback status_callback j (elapse dt w), rest)
             else wait_for_condition_loop namespace name expected_condition polling_interval
                    status_callback end_time rest
                    (sleep (td_seconds polling_interval)
                       (run_callback status_callback j (elapse dt w))))"
    by (simp add: fetch_results_def inspect_def Let_def)
next
  assume a: "status j = None
        \<or> status j = Some s
          \<and> (conditions s = Missing \<or> conditions s = Null \<or> conditions s = Given [])"
  then have conds: "poll_conditions j = []"
    by (auto simp: poll_conditions_def get_status_def get_conditions_def)
  then show "wait_for_condition_loop namespace name expected_condition polling_interval
            status_callback end_time ((Inr j, dt) # rest) w
          = (let w1 = (if tfjob_truthy j then run_callback status_callback j (elapse dt w)
                       else elapse dt w)
             in if now w1 + polling_interval > end_time
                then Some (Inl (JobTimeoutError name namespace expected_condition (Some j)),
                           w1, rest)
                else wait_for_condition_loop namespace name expected_condition
                       polling_interval status_callback end_time rest
                       (sleep (td_seconds polling_interval) w1))"
    by (simp add: fetch_results_def inspect_def Let_def)
qed

text \<open>
  Three runs that wait for \<open>Succeeded\<close> or \<open>Failed\<close>: a job that has failed is
  returned at once; a job that is only running is not, and the deadline raises the timeout
  with it; a job whose conditions are \<open>None\<close> is no error, the wait sleeps and returns
  the job of the next fetch, which has succeeded.
\<close>

theorem condition_match_returns_witness:
  "wait_for_condition ''kubeflow'' ''mnist'' [''Succeeded'', ''Failed''] 1800000000 30000000
     (Some (\<lambda>job seen. seen @ [job]))
     [(Inr \<lparr>metadata = None, spec = None,
             status = Some \<lparr>conditions =
               Given [\<lparr>cond_type = Some ''Running''\<rparr>, \<lparr>cond_type = Some ''Failed''\<rparr>,
                      \<lparr>cond_type = Some ''Succeeded''\<rparr>]\<rparr>,
             other_keys = []\<rparr>, 250000)]
     \<lparr>now = 0, slept = [], caller = []\<rparr>
   = Some (Inr \<lparr>metadata = None, spec = None,
             status = Some \<lparr>conditions =
               Given [\<lparr>cond_type = Some ''Running''\<rparr>, \<lparr>cond_type = Some ''Failed''\<rparr>,
                      \<lparr>cond_type = Some ''Succeeded''\<rparr>]\<rparr>,
             other_keys = []\<rparr>,
           \<lparr>now = 250000, slept = [],
             caller = [\<lparr>metadata = None, spec = None,
               status = Some \<lparr>conditions =
                 Given [\<lparr>cond_type = Some ''Running''\<rparr>, \<lparr>cond_type = Some ''Failed''\<rparr>,
                        \<lparr>cond_type = Some ''Succeeded''\<rparr>]\<rparr>,
               other_keys = []\<rparr>]\<rparr>, [])
   \<and> wait_for_condition ''kubeflow'' ''mnist'' [''Succeeded'', ''Failed''] 20000000 30000000
     None
     [(Inr \<lparr>metadata = None, spec = None,
             status = Some \<lparr>conditions = Given [\<lparr>cond_type = Some ''Running''\<rparr>]\<rparr>,
             other_keys = []\<rparr>, 250000)]
     \<lparr>now = 0, slept = [], caller = ()\<rparr>
   = Some (Inl (JobTimeoutError ''mnist'' ''kubeflow'' [''Succeeded'', ''Failed'']
                 (Some \<lparr>metadata = None, spec = None,
                    status = Some \<lparr>conditions = Given [\<lparr>cond_type = Some ''Running''\<rparr>]\<rparr>,
                    other_keys = []\<rparr>)),
           \<lparr>now = 250000, slept = [], caller = ()\<rparr>, [])
   \<and> wait_for_condition ''kubeflow'' ''mnist'' [''Succeeded'', ''Failed''] 1800000000 30000000
     None
     [(Inr \<lparr>metadata = None, spec = None, status = Some \<lparr>conditions = Null\<rparr>,
             other_keys = []\<rparr>, 250000),
      (Inr \<lparr>metadata = None, spec = None,
             status = Some \<lparr>conditions = Given [\<lparr>cond_type = Some ''Succeeded''\<rparr>]\<rparr>,
             other_keys = []\<rparr>, 250000)]
     \<lparr>now = 0, slept = [], caller = ()\<rparr>
   = Some (Inr \<lparr>metadata = None, spec = None,
             status = Some \<lparr>conditions = Given [\<lparr>cond_type = Some ''Succeeded''\<rparr>]\<rparr>,
             other_keys = []\<rparr>,
           \<lparr>now = 30500000, slept = [30], caller = ()\<rparr>, [])"
  using
    condition_match_returns [where
      j = "\<lparr>metadata = None, spec = None,
             status = Some \<lparr>conditions =
               Given [\<lparr>cond_type = Some ''Running''\<rparr>, \<lparr>cond_type = Some ''Failed''\<rparr>,
                      \<lparr>cond_type = Some ''Succeeded''\<rparr>]\<rparr>,
             other_keys = []\<rparr>"
      and s = "\<lparr>conditions =
               Given [\<lparr>cond_type = Some ''Running''\<rparr>, \<lparr>cond_type = Some ''Failed''\<rparr>,
                      \<lparr>cond_type = Some ''Succeeded''\<rparr>]\<rparr>"
      and cs = "[\<lparr>cond_type = Some ''Running''\<rparr>, \<lparr>cond_type = Some ''Failed''\<rparr>,
                      \<lparr>cond_type = Some ''Succeeded''\<rparr>]"
      and expected_condition = "[''Succeeded'', ''Failed'']"
      and namespace = "''kubeflow''" and name = "''mnist''"
      and polling_interval = 30000000
      and status_callback = "Some (\<lambda>job seen. seen @ [job])"
      and end_time = 1800000000 and timeout = 1800000000 and dt = 250000 and rest = "[]"
      and w = "\<lparr>now = 0, slept = [], caller = []\<rparr>"]
    condition_match_returns [where
      j = "\<lparr>metadata = None, spec = None,
             status = Some \<lparr>conditions = Given [\<lparr>cond_type = Some ''Running''\<rparr>]\<rparr>,
             other_keys = []\<rparr>"
      and s = "\<lparr>conditions = Given [\<lparr>cond_type = Some ''Running''\<rparr>]\<rparr>"
      and cs = "[\<lparr>cond_type = Some ''Running''\<rparr>]"
      and expected_condition = "[''Succeeded'', ''Failed'']"
      and namespace = "''kubeflow''" and name = "''mnist''"
      and polling_interval = 30000000 and status_callback = None
      and end_time = 20000000 and timeout = 20000000 and dt = 250000 and rest = "[]"
      and w = "\<lparr>now = 0, slept = [], caller = ()\<rparr>"]
    condition_match_returns [where
      j = "\<lparr>metadata = None, spec = None, status = Some \<lparr>conditions = Null\<rparr>,
             other_keys = []\<rparr>"
      and s = "\<lparr>conditions = Null\<rparr>"
      and cs = "[]"
      and expected_condition = "[''Succeeded'', ''Failed'']"
      and namespace = "''kubeflow''" and name = "''mnist''"
      and polling_interval = 30000000 and status_callback = None
      and end_time = 1800000000 and timeout = 1800000000 and dt = 250000
      and rest = "[(Inr \<lparr>metadata = None, spec = None,
             status = Some \<lparr>conditions = Given [\<lparr>cond_type = Some ''Succeeded''\<rparr>]\<rparr>,
             other_keys = []\<rparr>, 250000)]"
      and w = "\<lparr>now = 0, slept = [], caller = ()\<rparr>"]
    condition_match_returns [where
      j = "\<lparr>metadata = None, spec = None,
             status = Some \<lparr>conditions = Given [\<lparr>cond_type = Some ''Succeeded''\<rparr>]\<rparr>,
             other_keys = []\<rparr>"
      and s = "\<lparr>conditions = Given [\<lparr>cond_type = Some ''Succeeded''\<rparr>]\<rparr>"
      and cs = "[\<lparr>cond_type = Some ''Succeeded''\<rparr>]"
      and expected_condition = "[''Succeeded'', ''Failed'']"
      and namespace = "''kubeflow''" and name = "''mnist''"
      and polling_interval = 30000000 and status_callback = None
      and end_time = 1800000000 and timeout = 1800000000 and dt = 250000 and rest = "[]"
      and w = "\<lparr>now = 30250000, slept = [30], caller = ()\<rparr>"]
  by (simp add: wait_for_condition_def get_type_def run_callback_def elapse_def sleep_def
      td_seconds_def tfjob_truthy_def)

text \<open>
  C6. In every iteration of \<open>wait_for_delete\<close>, whatever the world and the answers
  before: a not-found answer ends the wait with a normal return; any other exception of
  the fetch goes to the caller at once; after a fetch that returned the resource, a
  deadline that the next sleep would pass raises \<open>TimeoutError\<close>, which holds the job
  name and the namespace of its message and no status; and otherwise the loop sleeps and
  goes on, so that a not-found answer after a fetch that returned the resource still ends
  the wait with a normal return.
\<close>

theorem wait_for_delete_outcomes:
  "wait_for_delete_loop namespace name polling_interval status_callback end_time
       ((Inl (ApiException NOT_FOUND), dt) # rest) w
     = Some (Inr (), elapse dt w, rest)
   \<and> (e \<noteq> ApiException NOT_FOUND \<longrightarrow>
        wait_for_delete_loop namespace name polling_interval status_callback end_time
          ((Inl e, dt) # rest) w
        = Some (Inl (Raised e), elapse dt w, rest))
   \<and> (now (run_callback status_callback j (elapse dt w)) + polling_interval > end_time \<longrightarrow>
        wait_for_delete_loop namespace name polling_interval status_callback end_time
          ((Inr j, dt) # rest) w
        = Some (Inl (TimeoutError name namespace),
                run_callback status_callback j (elapse dt w), rest))
   \<and> (\<not> now (run_callback status_callback j (elapse dt w)) + polling_interval > end_time \<longrightarrow>
        wait_for_delete_loop namespace name polling_interval status_callback end_time
          ((Inr j, dt) # rest) w
        = wait_for_delete_loop namespace name polling_interval status_callback end_time rest
            (sleep (td_seconds polling_interval) (run_callback status_callback j (elapse dt w)))
        \<and> wait_for_delete_loop namespace name polling_interval status_callback end_time
          ((Inr j, dt) # (Inl (ApiException NOT_FOUND), dt') # rest) w
        = Some (Inr (),
                elapse dt' (sleep (td_seconds polling_interval)
                  (run_callback status_callback j (elapse dt w))), rest))"
  by (auto simp: Let_def split: api_exn.splits)

theorem wait_for_delete_outcomes_witness:
  "wait_for_delete ''kubeflow'' ''mnist'' 900000000 30000000 None
     [(Inr \<lparr>metadata = None, spec = None, status = None, other_keys = [''kind'']\<rparr>, 100000),
      (Inl (ApiException 404), 100000)]
     \<lparr>now = 0, slept = [], caller = ()\<rparr>
   = Some (Inr (), \<lparr>now = 30200000, slept = [30], caller = ()\<rparr>, [])
   \<and> wait_for_delete ''kubeflow'' ''mnist'' 900000000 30000000 None
     [(Inl (ApiException 500), 100000)] \<lparr>now = 0, slept = [], caller = ()\<rparr>
   = Some (Inl (Raised (ApiException 500)), \<lparr>now = 100000, slept = [], caller = ()\<rparr>, [])
   \<and> wait_for_delete ''kubeflow'' ''mnist'' 20000000 30000000 None
     [(Inr \<lparr>metadata = None, spec = None, status = None, other_keys = [''kind'']\<rparr>, 100000)]
     \<lparr>now = 0, slept = [], caller = ()\<rparr>
   = Some (Inl (TimeoutError ''mnist'' ''kubeflow''),
           \<lparr>now = 100000, slept = [], caller = ()\<rparr>, [])"
  using
    wait_for_delete_outcomes [of "''kubeflow''" "''mnist''" 30000000 None 900000000
      100000 "[]" "\<lparr>now = 0, slept = [], caller = ()\<rparr>" "ApiException 500"
      "\<lparr>metadata = None, spec = None, status = None, other_keys = [''kind'']\<rparr>" 100000]
    wait_for_delete_outcomes [of "''kubeflow''" "''mnist''" 30000000 None 20000000
      100000 "[]" "\<lparr>now = 0, slept = [], caller = ()\<rparr>" "ApiException 500"
      "\<lparr>metadata = None, spec = None, status = None, other_keys = [''kind'']\<rparr>" 100000]
  by (simp add: wait_for_delete_def NOT_FOUND_def run_callback_def elapse_def sleep_def
      td_seconds_def)

section \<open>Properties of the restart check\<close>

lemmas cluster_defs =
  terminate_and_verify_start_time_def and_then_def returns_def
  wait_for_replica_type_in_phases_def wait_for_pods_to_be_in_phases_def
  get_start_time_by_index_def get_container_start_time_def
  terminate_replicas_def terminate_replica_def

lemma one_target: "[0 ..< nat 1] = [0]"
  by (simp add: upt_rec)

text \<open>
  C1. The claim says that the waits and the termination of \<open>terminate_and_verify_start_time\<close>
  address the replica type it is given. On the replica type \<open>worker\<close> the run below
  waits for the pods selected by \<open>replica-type=ps\<close> and terminates \<open>mnist-ps-0\<close>;
  only the start-time lookups select \<open>replica-type=worker\<close>.
\<close>

theorem verify_restart_addresses_ps:
  "terminate_and_verify_start_time ''https://master'' ''kubeflow'' ''mnist'' ''worker'' 0 0 True
     \<lparr>pod_waits = [None, None, None], start_times = [Inr 36000, Inr 36005],
      sends = [(None, 0)], calls = []\<rparr>
   = Some (Inr True,
       \<lparr>pod_waits = [], start_times = [], sends = [],
        calls =
          [WaitForPods ''kubeflow'' ''group-name=kubeflow.org,job-name=mnist,replica-type=ps''
             [''Running''] (minutes 30),
           GetContainerStartTime ''kubeflow''
             ''group-name=kubeflow.org,job-name=mnist,replica-type=worker'' 0 ''Running'',
           WaitForPods ''kubeflow'' ''group-name=kubeflow.org,job-name=mnist,replica-type=ps''
             [''Running''] (minutes 15),
           SendRequest ''https://master'' ''kubeflow'' ''mnist-ps-0'' ''exit'' [(''exitCode'', 0)],
           WaitForPods ''kubeflow'' ''group-name=kubeflow.org,job-name=mnist,replica-type=ps''
             [''Running''] (minutes 30),
           GetContainerStartTime ''kubeflow''
             ''group-name=kubeflow.org,job-name=mnist,replica-type=worker'' 0 ''Running'']\<rparr>)"
  by (simp add: cluster_defs one_target get_labels_def to_selector_def TF_JOB_NAME_LABEL_def
      lower_def lower_char_def format_label_def)

text \<open>How each step of the check uses the scripted start times.\<close>

lemma and_then_cases:
  assumes "and_then m f c = Some (r, c')"
  obtains (raised) e where "m c = Some (Inl e, c')" and "r = Inl e"
        | (went_on) v c1 where "m c = Some (Inr v, c1)" and "f v c1 = Some (r, c')"
  using assms by (auto simp: and_then_def split: option.splits sum.splits)

lemma wait_pods_frame:
  "wait_for_pods_to_be_in_phases namespace pod_selector phases timeout c = Some (r, c') \<Longrightarrow>
     start_times c' = start_times c"
  by (auto simp: wait_for_pods_to_be_in_phases_def split: list.splits)

lemma wait_replica_type_frame:
  "wait_for_replica_type_in_phases namespace name replica_type phases c = Some (r, c') \<Longrightarrow>
     start_times c' = start_times c"
  by (auto simp: wait_for_replica_type_in_phases_def Let_def dest: wait_pods_frame)

lemma terminate_replica_frame:
  "terminate_replica master_host namespace target exit_code c = Some (r, c') \<Longrightarrow>
     start_times c' = start_times c"
  by (auto simp: terminate_replica_def Let_def split: option.splits)

lemma terminate_each_frame:
  "terminate_each master_host namespace target exit_code nums c = Some (r, c') \<Longrightarrow>
     start_times c' = start_times c"
proof (induction nums arbitrary: c)
  case Nil
  then show ?case by simp
next
  case (Cons num nums)
  then show ?case
    by (auto simp: Let_def split: option.splits sum.splits dest: terminate_replica_frame)
qed

lemma terminate_replicas_frame:
  assumes "terminate_replicas master_host namespace name replica num_targets exit_code c = Some (r, c')"
  shows "start_times c' = start_times c"
  using assms unfolding terminate_replicas_def Let_def
proof (cases rule: and_then_cases)
  case (raised e)
  from raised(1) show ?thesis by (rule wait_pods_frame)
next
  case (went_on u c1)
  from went_on(1) have "start_times c1 = start_times c" by (rule wait_pods_frame)
  moreover from went_on(2) have "start_times c' = start_times c1" by (rule terminate_each_frame)
  ultimately show ?thesis by simp
qed

lemma get_start_time_read:
  assumes "get_start_time_by_index namespace name replica_type replica_index phase c = Some (r, c')"
  obtains a where "start_times c = a # start_times c'"
    and "r = (case a of Inr t \<Rightarrow> Inr t | Inl e \<Rightarrow> Inl (Raised e))"
  using assms
  by (auto simp: get_start_time_by_index_def get_container_start_time_def Let_def split: list.splits)

lemma not_two_longer: "xs \<noteq> a # b # xs"
proof
  assume "xs = a # b # xs"
  then have "length xs = length (a # b # xs)" by simp
  then show False by simp
qed

text \<open>
  When the three waits succeed, the two start-time lookups answer \<open>t0\<close> and \<open>t1\<close>, and
  the termination request is acknowledged, the check with \<open>expect_restart\<close> returns.
\<close>

lemma verify_restart_returns:
  assumes "pod_waits c = None # None # None # pw"
      and "start_times c = Inr t0 # Inr t1 # st"
      and "sends c = (None, d) # sd"
  shows "\<exists>log. terminate_and_verify_start_time master_host namespace name replica_type
           replica_index exit_code True c
         = Some (Inr (t0 < t1), \<lparr>pod_waits = pw, start_times = st, sends = sd, calls = log\<rparr>)"
  using assms by (cases c) (auto simp add: cluster_defs one_target Let_def)

text \<open>
  A run with \<open>expect_restart\<close> that has read exactly two start times returns the
  comparison of the two.
\<close>

lemma restart_result:
  assumes run: "terminate_and_verify_start_time master_host namespace name replica_type
                  replica_index exit_code True c = Some (r, c')"
      and reads: "start_times c = Inr t0 # Inr t1 # start_times c'"
  shows "r = Inr (t0 < t1)"
  using run unfolding terminate_and_verify_start_time_def
proof (cases rule: and_then_cases)
  case (raised e)
  from raised(1) have "start_times c' = start_times c" by (rule wait_replica_type_frame)
  with reads show ?thesis by (simp add: not_two_longer)
next
  case (went_on u c1)
  have c1: "start_times c1 = start_times c" using went_on(1) by (rule wait_replica_type_frame)
  from went_on(2) show ?thesis
  proof (cases rule: and_then_cases)
    case (raised e)
    from raised(1) obtain a where "start_times c1 = a # start_times c'" by (rule get_start_time_read)
    with c1 reads show ?thesis by simp
  next
    case (went_on first_start_time c2)
    from went_on(1) obtain a where a: "start_times c1 = a # start_times c2"
      and "Inr first_start_time = (case a of Inr t \<Rightarrow> Inr t | Inl e \<Rightarrow> Inl (Raised e))"
      by (rule get_start_time_read)
    with c1 reads have first: "first_start_time = t0" and c2: "start_times c2 = Inr t1 # start_times c'"
      by simp_all
    from went_on(2) show ?thesis
    proof (cases rule: and_then_cases)
      case (raised e)
      from raised(1) have "start_times c' = start_times c2" by (rule terminate_replicas_frame)
      with c2 show ?thesis by simp
    next
      case (went_on u c3)
      have c3: "start_times c3 = start_times c2" using went_on(1) by (rule terminate_replicas_frame)
      from went_on(2) have "and_then (wait_for_replica_type_in_phases namespace name ''ps'' [''Running'']) (\<lambda>u.
       and_then (get_start_time_by_index namespace name replica_type replica_index ''Running'')
         (\<lambda>restart_time.
       if restart_time \<le> first_start_time then returns False else returns True)) c3 = Some (r, c')" by simp
      then show ?thesis
      proof (cases rule: and_then_cases)
        case (raised e)
        from raised(1) have "start_times c' = start_times c3" by (rule wait_replica_type_frame)
        with c2 c3 show ?thesis by simp
      next
        case (went_on u c4)
        have c4: "start_times c4 = start_times c3" using went_on(1) by (rule wait_replica_type_frame)
        from went_on(2) show ?thesis
        proof (cases rule: and_then_cases)
          case (raised e)
          from raised(1) obtain b where "start_times c4 = b # start_times c'"
            and "Inl e = (case b of Inr t \<Rightarrow> Inr t | Inl e \<Rightarrow> Inl (Raised e))"
            by (rule get_start_time_read)
          with c2 c3 c4 show ?thesis by simp
        next
          case (went_on restart_time c5)
          from went_on(1) obtain b where "start_times c4 = b # start_times c5"
            and "Inr restart_time = (case b of Inr t \<Rightarrow> Inr t | Inl e \<Rightarrow> Inl (Raised e))"
            by (rule get_start_time_read)
          moreover from went_on(2) have "c' = c5" and r: "r = Inr (\<not> restart_time \<le> first_start_time)"
            by (auto simp: returns_def split: if_splits)
          ultimately have "restart_time = t1" using c2 c3 c4 by auto
          with r first show ?thesis by (simp add: not_le)
        qed
      qed
    qed
  qed
qed

text \<open>
  C2. A run with \<open>expect_restart\<close> that has read exactly two start times, \<open>t0\<close> before
  the termination and \<open>t1\<close> after the second wait for \<open>Running\<close>, returns whether
  \<open>t1\<close> is strictly later than \<open>t0\<close>; equal times give \<open>False\<close>. Such runs
  exist: when the three waits succeed, the lookups answer \<open>t0\<close> and \<open>t1\<close> and the
  termination request is acknowledged, the check returns that comparison.
\<close>

theorem restart_strictly_later:
  "(terminate_and_verify_start_time master_host namespace name replica_type replica_index
       exit_code True c = Some (r, c')
     \<and> start_times c = Inr t0 # Inr t1 # start_times c'
     \<longrightarrow> r = Inr (t0 < t1))
   \<and> (pod_waits c = None # None # None # pw
     \<and> start_times c = Inr t0 # Inr t1 # st
     \<and> sends c = (None, d) # sd
     \<longrightarrow> (\<exists>log. terminate_and_verify_start_time master_host namespace name replica_type
             replica_index exit_code True c
           = Some (Inr (t0 < t1),
                   \<lparr>pod_waits = pw, start_times = st, sends = sd, calls = log\<rparr>)))"
proof (intro conjI impI)
  assume "terminate_and_verify_start_time master_host namespace name replica_type
            replica_index exit_code True c = Some (r, c')
          \<and> start_times c = Inr t0 # Inr t1 # start_times c'"
  then show "r = Inr (t0 < t1)"
    by (elim conjE) (rule restart_result)
next
  assume "pod_waits c = None # None # None # pw
          \<and> start_times c = Inr t0 # Inr t1 # st
          \<and> sends c = (None, d) # sd"
  then show "\<exists>log. terminate_and_verify_start_time master_host namespace name replica_type
             replica_index exit_code True c
           = Some (Inr (t0 < t1),
                   \<lparr>pod_waits = pw, start_times = st, sends = sd, calls = log\<rparr>)"
    by (elim conjE) (rule verify_restart_returns)
qed

text \<open>
  The scenarios of the specification: start times 10:00:00 and 10:00:05 give \<open>True\<close>,
  10:00:00 twice gives \<open>False\<close> (here after one failed attempt to send the request).
\<close>

theorem restart_strictly_later_witness:
  "terminate_and_verify_start_time ''https://master'' ''kubeflow'' ''mnist'' ''ps'' 0 0 True
     \<lparr>pod_waits = [None, None, None], start_times = [Inr 36000, Inr 36005],
      sends = [(None, 0)], calls = []\<rparr>
   = Some (Inr True,
       \<lparr>pod_waits = [], start_times = [], sends = [],
        calls =
          [WaitForPods ''kubeflow'' ''group-name=kubeflow.org,job-name=mnist,replica-type=ps''
             [''Running''] (minutes 30),
           GetContainerStartTime ''kubeflow''
             ''group-name=kubeflow.org,job-name=mnist,replica-type=ps'' 0 ''Running'',
           WaitForPods ''kubeflow'' ''group-name=kubeflow.org,job-name=mnist,replica-type=ps''
             [''Running''] (minutes 15),
           SendRequest ''https://master'' ''kubeflow'' ''mnist-ps-0'' ''exit'' [(''exitCode'', 0)],
           WaitForPods ''kubeflow'' ''group-name=kubeflow.org,job-name=mnist,replica-type=ps''
             [''Running''] (minutes 30),
           GetContainerStartTime ''kubeflow''
             ''group-name=kubeflow.org,job-name=mnist,replica-type=ps'' 0 ''Running'']\<rparr>)
   \<and> terminate_and_verify_start_time ''https://master'' ''kubeflow'' ''mnist'' ''ps'' 0 0 True
     \<lparr>pod_waits = [None, None, None], start_times = [Inr 36000, Inr 36000],
      sends = [(Some (OtherError ''connection refused''), 12), (None, 25)], calls = []\<rparr>
   = Some (Inr False,
       \<lparr>pod_waits = [], start_times = [], sends = [],
        calls =
          [WaitForPods ''kubeflow'' ''group-name=kubeflow.org,job-name=mnist,replica-type=ps''
             [''Running''] (minutes 30),
           GetContainerStartTime ''kubeflow''
             ''group-name=kubeflow.org,job-name=mnist,replica-type=ps'' 0 ''Running'',
           WaitForPods ''kubeflow'' ''group-name=kubeflow.org,job-name=mnist,replica-type=ps''
             [''Running''] (minutes 15),
           SendRequest ''https://master'' ''kubeflow'' ''mnist-ps-0'' ''exit'' [(''exitCode'', 0)],
           RetrySleep 10,
           SendRequest ''https://master'' ''kubeflow'' ''mnist-ps-0'' ''exit'' [(''exitCode'', 0)],
           WaitForPods ''kubeflow'' ''group-name=kubeflow.org,job-name=mnist,replica-type=ps''
             [''Running''] (minutes 30),
           GetContainerStartTime ''kubeflow''
             ''group-name=kubeflow.org,job-name=mnist,replica-type=ps'' 0 ''Running'']\<rparr>)"
    (is "?run1 = Some (Inr True, ?c1) \<and> ?run2 = Some (Inr False, ?c2)")
proof -
  have "\<exists>r. ?run1 = Some (r, ?c1)"
    by (simp add: cluster_defs one_target get_labels_def to_selector_def TF_JOB_NAME_LABEL_def
        lower_def lower_char_def format_label_def)
  then obtain r1 where run1: "?run1 = Some (r1, ?c1)" ..
  from restart_strictly_later [where ?t0.0 = 36000 and ?t1.0 = 36005, THEN conjunct1,
      rule_format, OF conjI [OF run1]]
  have "r1 = Inr True" by simp
  have "\<exists>r. ?run2 = Some (r, ?c2)"
    by (simp add: cluster_defs one_target get_labels_def to_selector_def TF_JOB_NAME_LABEL_def
        lower_def lower_char_def format_label_def stop_max_delay_def wait_fixed_def)
  then obtain r2 where run2: "?run2 = Some (r2, ?c2)" ..
  from restart_strictly_later [where ?t0.0 = 36000 and ?t1.0 = 36000, THEN conjunct1,
      rule_format, OF conjI [OF run2]]
  have "r2 = Inr False" by simp
  with \<open>r1 = Inr True\<close> run1 run2 show ?thesis by simp
qed

end
